theory Spec2Isabelle
  imports Complex_Main "HOL-Library.Log_Nat" "HOL-Library.Sublist"
begin

section \<open>JavaScript numbers\<close>

text \<open>
  A JavaScript number is an IEEE 754 binary64 value. The finite ones are rationals; every
  arithmetic operation computes the exact rational result and rounds it to the nearest
  binary64 value, ties to even. The two zeros are identified: nothing in this program
  tells them apart (comparisons, \<^verbatim>\<open>includes\<close>, truthiness, property keys and printing
  treat \<^verbatim>\<open>-0\<close> as \<^verbatim>\<open>0\<close>).
\<close>

datatype number = NaN | NegInf | Fin rat | PosInf

definition pow2 :: "int \<Rightarrow> rat" where
  "pow2 k = (if 0 \<le> k then 2 ^ nat k else 1 / 2 ^ nat (- k))"

text \<open>\<open>ilog2 x\<close> is the binary exponent of a positive rational: \<open>2^e \<le> x < 2^(e+1)\<close>.\<close>

definition ilog2 :: "rat \<Rightarrow> int" where
  "ilog2 x = (case quotient_of x of (p, q) \<Rightarrow>
     (let d = int (floorlog 2 (nat p)) - int (floorlog 2 (nat q))
      in if pow2 d \<le> x then d else d - 1))"

definition round_half_even :: "rat \<Rightarrow> int" where
  "round_half_even r = (let f = \<lfloor>r\<rfloor>; d = r - of_int f in
      if d < 1 / 2 then f else if 1 / 2 < d then f + 1 else if even f then f else f + 1)"

text \<open>
  Rounding to binary64: 53 significant bits, exponents from \<open>-1022\<close> (below it the
  spacing stays \<open>2^-1074\<close>: subnormals) to \<open>1023\<close> (a rounded magnitude of \<open>2^1024\<close> or
  more is an infinity).
\<close>

definition fl :: "rat \<Rightarrow> number" where
  "fl x = (if x = 0 then Fin 0 else
     (let e = max (ilog2 \<bar>x\<bar>) (- 1022);
          u = pow2 (e - 52);
          y = of_int (round_half_even (\<bar>x\<bar> / u)) * u
      in if pow2 1024 \<le> y then (if 0 < x then PosInf else NegInf)
         else Fin (sgn x * y)))"

text \<open>The operators \<^verbatim>\<open>*\<close>, \<^verbatim>\<open>+\<close> and \<^verbatim>\<open>/\<close>.\<close>

fun js_mul :: "number \<Rightarrow> number \<Rightarrow> number" where
  "js_mul (Fin a) (Fin b) = fl (a * b)"
| "js_mul NaN _ = NaN"
| "js_mul _ NaN = NaN"
| "js_mul (Fin a) PosInf = (if a = 0 then NaN else if 0 < a then PosInf else NegInf)"
| "js_mul (Fin a) NegInf = (if a = 0 then NaN else if 0 < a then NegInf else PosInf)"
| "js_mul PosInf (Fin b) = (if b = 0 then NaN else if 0 < b then PosInf else NegInf)"
| "js_mul NegInf (Fin b) = (if b = 0 then NaN else if 0 < b then NegInf else PosInf)"
| "js_mul PosInf PosInf = PosInf"
| "js_mul PosInf NegInf = NegInf"
| "js_mul NegInf PosInf = NegInf"
| "js_mul NegInf NegInf = PosInf"

fun js_add :: "number \<Rightarrow> number \<Rightarrow> number" where
  "js_add (Fin a) (Fin b) = fl (a + b)"
| "js_add NaN _ = NaN"
| "js_add _ NaN = NaN"
| "js_add PosInf NegInf = NaN"
| "js_add NegInf PosInf = NaN"
| "js_add PosInf _ = PosInf"
| "js_add _ PosInf = PosInf"
| "js_add NegInf _ = NegInf"
| "js_add _ NegInf = NegInf"

text \<open>
  Division. A zero divisor is taken as \<^verbatim>\<open>+0\<close>; the program only ever divides by the
  literal \<^verbatim>\<open>100\<close>.
\<close>

fun js_div :: "number \<Rightarrow> number \<Rightarrow> number" where
  "js_div (Fin a) (Fin b) =
     (if b = 0 then (if a = 0 then NaN else if 0 < a then PosInf else NegInf)
      else fl (a / b))"
| "js_div NaN _ = NaN"
| "js_div _ NaN = NaN"
| "js_div (Fin a) PosInf = Fin 0"
| "js_div (Fin a) NegInf = Fin 0"
| "js_div PosInf (Fin b) = (if 0 \<le> b then PosInf else NegInf)"
| "js_div NegInf (Fin b) = (if 0 \<le> b then NegInf else PosInf)"
| "js_div PosInf PosInf = NaN"
| "js_div PosInf NegInf = NaN"
| "js_div NegInf PosInf = NaN"
| "js_div NegInf NegInf = NaN"

text \<open>
  \<^verbatim>\<open>Math.round\<close>: the nearest integer, a tie going towards \<open>+\<infinity>\<close>.
\<close>

fun Math_round :: "number \<Rightarrow> number" where
  "Math_round (Fin r) = Fin (of_int \<lfloor>r + 1 / 2\<rfloor>)"
| "Math_round n = n"

text \<open>The comparisons \<^verbatim>\<open><\<close>, \<^verbatim>\<open>></\<close> and \<^verbatim>\<open>>=\<close>: false whenever an operand is NaN.\<close>

fun js_lt :: "number \<Rightarrow> number \<Rightarrow> bool" where
  "js_lt NaN _ = False"
| "js_lt _ NaN = False"
| "js_lt (Fin a) (Fin b) = (a < b)"
| "js_lt _ NegInf = False"
| "js_lt NegInf _ = True"
| "js_lt PosInf _ = False"
| "js_lt _ PosInf = True"

definition js_gt :: "number \<Rightarrow> number \<Rightarrow> bool" where
  "js_gt a b = js_lt b a"

definition js_ge :: "number \<Rightarrow> number \<Rightarrow> bool" where
  "js_ge a b = (a \<noteq> NaN \<and> b \<noteq> NaN \<and> \<not> js_lt a b)"

definition isNaN :: "number \<Rightarrow> bool" where
  "isNaN n = (n = NaN)"

text \<open>
  Truthiness of an optional number (\<open>None\<close> is \<^verbatim>\<open>undefined\<close>): \<^verbatim>\<open>undefined\<close>,
  \<^verbatim>\<open>0\<close> and \<^verbatim>\<open>NaN\<close> are falsy.
\<close>

fun truthy :: "number option \<Rightarrow> bool" where
  "truthy None = False"
| "truthy (Some NaN) = False"
| "truthy (Some (Fin r)) = (r \<noteq> 0)"
| "truthy (Some _) = True"

text \<open>\<^verbatim>\<open>a || b\<close> on optional numbers.\<close>

definition js_or :: "number option \<Rightarrow> number option \<Rightarrow> number option" where
  "js_or a b = (if truthy a then a else b)"

text \<open>An \<^verbatim>\<open>undefined\<close> operand of an arithmetic operator is converted to NaN.\<close>

fun toNumber :: "number option \<Rightarrow> number" where
  "toNumber None = NaN"
| "toNumber (Some n) = n"

section \<open>Strings and arrays\<close>

text \<open>
  Strings are byte strings; the euro sign is its three UTF-8 bytes. The only length
  the program takes is that of \<^verbatim>\<open>zipCode\<close>, together with a test that every character
  is an ASCII digit, so counting bytes or UTF-16 units gives the same verdict.
\<close>

definition euro :: string where
  "euro = [CHR 0xE2, CHR 0x82, CHR 0xAC]"

text \<open>\<^verbatim>\<open>Array.prototype.push\<close> and \<^verbatim>\<open>Array.prototype.join\<close>.\<close>

definition push :: "'a list \<Rightarrow> 'a \<Rightarrow> 'a list" where
  "push xs x = xs @ [x]"

fun join :: "string \<Rightarrow> string list \<Rightarrow> string" where
  "join sep [] = []"
| "join sep [x] = x"
| "join sep (x # y # ys) = x @ sep @ join sep (y # ys)"

text \<open>\<^verbatim>\<open>Array.prototype.includes\<close>.\<close>

definition Array_includes :: "'a list \<Rightarrow> 'a \<Rightarrow> bool" where
  "Array_includes xs x = (x \<in> set xs)"

text \<open>The regular expression \<^verbatim>\<open>/^\d{5}$/\<close>: exactly five characters, each of \<^verbatim>\<open>0-9\<close>.\<close>

definition is_digit :: "char \<Rightarrow> bool" where
  "is_digit c = (c \<in> set ''0123456789'')"

definition regex_5digits_test :: "string \<Rightarrow> bool" where
  "regex_5digits_test s = (length s = 5 \<and> list_all is_digit s)"

section \<open>Types (src/types/index.ts)\<close>

record LiabilityConfiguration =
  zipCode :: string
  tariffLine :: string
  familyCoverage :: bool
  dronesCoverage :: bool
  deductibleAmount :: number
  previousInsurance :: bool
  numberOfClaims :: number
  cancelledByInsurer :: bool
  effectiveDate :: string
  coverageAmount :: "number option"

text \<open>
  The quote. \<open>coverageSum\<close> is optional because the table lookup that fills it yields
  \<^verbatim>\<open>undefined\<close> for an unknown key; the echoed fields carry a prime, their names being
  taken by the configuration.
\<close>

record LiabilityQuote =
  quoteId :: string
  monthlyPremium :: number
  annualPremium :: number
  currency :: string
  coverageSum :: "number option"
  deductible :: number
  territory :: string
  includedRisks :: "string list"
  extensions :: "string list"
  validUntil :: string
  tariffLine' :: string
  familyCoverage' :: bool

record LiabilityQuoteResult =
  success :: bool
  quote :: "LiabilityQuote option"
  error :: "string option"
  summary :: string

record ValidationResult =
  valid :: bool
  errors :: "string list option"

text \<open>
  What a \<^verbatim>\<open>throw\<close> can carry: a \<^verbatim>\<open>ValidationError\<close> (message, details), any other
  \<^verbatim>\<open>Error\<close> (message), or a value that is not an \<^verbatim>\<open>Error\<close>, given by its
  \<^verbatim>\<open>message\<close> property when it has one (\<^verbatim>\<open>throw {message: 'boom'}\<close> is
  \<open>NonError (Some ''boom'')\<close>, \<^verbatim>\<open>throw 'boom'\<close> is \<open>NonError None\<close>).
\<close>

datatype thrown =
  ValidationError string "string list option"
| OtherError string
| NonError "string option"

section \<open>The runtime\<close>

text \<open>
  What the program takes from the JavaScript runtime, as parameters:
  \<^item> \<open>Date_getTime s\<close> is \<^verbatim>\<open>new Date(s).getTime()\<close>, NaN when \<open>s\<close> does not parse;
  \<^item> \<open>Date_now_id\<close> and \<open>Date_now_valid\<close> are the two readings of \<^verbatim>\<open>Date.now()\<close>
    that \<^verbatim>\<open>calculateQuote\<close> takes, in milliseconds;
  \<^item> \<open>Math_random_suffix\<close> is \<^verbatim>\<open>Math.random().toString(36).substring(7)\<close>;
  \<^item> \<open>Number_toString\<close> prints a number inside a template literal;
  \<^item> \<open>Number_toLocaleString\<close> is \<^verbatim>\<open>toLocaleString()\<close> of a number;
  \<^item> \<open>Date_toISOString t\<close> is \<^verbatim>\<open>new Date(t).toISOString()\<close>; the clock is taken to
    be one for which the time thirty days later is still a valid date, so that the call
    does not raise a \<^verbatim>\<open>RangeError\<close>;
  \<^item> \<open>Date_toLocaleDateString s\<close> is \<^verbatim>\<open>new Date(s).toLocaleDateString()\<close>;
  \<^item> \<open>TypeError_message\<close> is the message of the \<^verbatim>\<open>TypeError\<close> raised by a method call
    on \<^verbatim>\<open>undefined\<close>.
\<close>

record env =
  Date_getTime :: "string \<Rightarrow> number"
  Date_now_id :: int
  Date_now_valid :: int
  Math_random_suffix :: string
  Number_toString :: "number \<Rightarrow> string"
  Number_toLocaleString :: "number \<Rightarrow> string"
  Date_toISOString :: "int \<Rightarrow> string"
  Date_toLocaleDateString :: "string \<Rightarrow> string"
  TypeError_message :: string

section \<open>LiabilityClient (src/clients/liability-client.ts)\<close>

subsection \<open>validateInput\<close>

definition validateInput :: "env \<Rightarrow> LiabilityConfiguration \<Rightarrow> ValidationResult" where
  "validateInput env params =
    (let errors = [];
         errors = (if zipCode params = [] \<or> length (zipCode params) \<noteq> 5
                      \<or> \<not> regex_5digits_test (zipCode params)
                   then push errors ''Invalid German postal code (must be 5 digits)''
                   else errors);
         errors = (if \<not> Array_includes [''basic'', ''comfort'', ''premium''] (tariffLine params)
                   then push errors ''Invalid tariff line (must be basic, comfort, or premium)''
                   else errors);
         errors = (if \<not> Array_includes [Fin 0, Fin 150, Fin 300, Fin 500] (deductibleAmount params)
                   then push errors ''Invalid deductible amount (must be 0, 150, 300, or 500)''
                   else errors);
         errors = (if js_lt (numberOfClaims params) (Fin 0)
                   then push errors ''Number of claims cannot be negative''
                   else errors);
         errors = (if js_gt (numberOfClaims params) (Fin 10)
                   then push errors ''Number of claims exceeds maximum allowed (10)''
                   else errors);
         effectiveDate = Date_getTime env (effectiveDate params);
         errors = (if isNaN effectiveDate
                   then push errors ''Invalid effective date format''
                   else errors);
         errors = (if truthy (coverageAmount params)
                   then (if js_lt (toNumber (coverageAmount params)) (Fin 5000000)
                            \<or> js_gt (toNumber (coverageAmount params)) (Fin 20000000)
                         then push errors (''Coverage amount must be between '' @ euro
                                 @ ''5,000,000 and '' @ euro @ ''20,000,000'')
                         else errors)
                   else errors)
     in \<lparr> valid = (length errors = 0),
          errors = (if length errors > 0 then Some errors else None) \<rparr>)"

subsection \<open>calculateQuote\<close>

text \<open>
  The three lookup tables; a key that is not in a table yields \<^verbatim>\<open>undefined\<close>. (The
  properties that an object inherits, such as \<^verbatim>\<open>toString\<close>, are left out: the tables
  are read after validation only, with keys that validation has accepted.) A number used
  as a key stands for its decimal string, and different finite numbers have different
  strings.
\<close>

definition coverageAmounts :: "string \<Rightarrow> number option" where
  "coverageAmounts = map_of
     [(''basic'', Fin 5000000), (''comfort'', Fin 10000000), (''premium'', Fin 20000000)]"

definition basePremiums :: "string \<Rightarrow> number option" where
  "basePremiums = map_of
     [(''basic'', fl (599 / 100)), (''comfort'', fl (999 / 100)), (''premium'', fl (1499 / 100))]"

definition deductibleDiscounts :: "number \<Rightarrow> number option" where
  "deductibleDiscounts = map_of
     [(Fin 0, fl 1), (Fin 150, fl (9 / 10)), (Fin 300, fl (85 / 100)), (Fin 500, fl (8 / 10))]"

text \<open>
  Lines 82 to 106: the running monthly premium, before rounding. A decimal literal
  \<^verbatim>\<open>d\<close> of the source is the binary64 value \<open>fl d\<close>.
\<close>

definition rawMonthlyPremium :: "LiabilityConfiguration \<Rightarrow> number" where
  "rawMonthlyPremium params =
    (let monthlyPremium = toNumber (basePremiums (tariffLine params));
         monthlyPremium = (if familyCoverage params
                           then js_mul monthlyPremium (fl (15 / 10)) else monthlyPremium);
         monthlyPremium = (if dronesCoverage params
                           then js_add monthlyPremium (fl (250 / 100)) else monthlyPremium);
         monthlyPremium = js_mul monthlyPremium
                            (toNumber (deductibleDiscounts (deductibleAmount params)));
         monthlyPremium = (if js_gt (numberOfClaims params) (Fin 0)
                           then js_mul monthlyPremium
                                  (js_add (Fin 1) (js_mul (numberOfClaims params) (fl (15 / 100))))
                           else monthlyPremium);
         monthlyPremium = (if cancelledByInsurer params
                           then js_mul monthlyPremium (fl (13 / 10)) else monthlyPremium)
     in monthlyPremium)"

definition calculateQuote :: "env \<Rightarrow> LiabilityConfiguration \<Rightarrow> thrown + LiabilityQuote" where
  "calculateQuote env params =
    (let validation = validateInput env params in
     if \<not> valid validation
     then Inl (ValidationError ''Invalid parameters'' (errors validation))
     else
      (let coverageAmount = js_or (coverageAmount params) (coverageAmounts (tariffLine params));
           monthlyPremium = rawMonthlyPremium params;
           annualPremium = js_mul monthlyPremium (Fin 12);
           extensions = [];
           extensions = (if dronesCoverage params
                         then push extensions ''drones_coverage'' else extensions);
           extensions = (if familyCoverage params
                         then push extensions ''family_coverage'' else extensions)
       in Inr \<lparr> quoteId = ''quote_'' @ Number_toString env (Fin (of_int (Date_now_id env)))
                          @ ''_'' @ Math_random_suffix env,
                monthlyPremium = js_div (Math_round (js_mul monthlyPremium (Fin 100))) (Fin 100),
                annualPremium = js_div (Math_round (js_mul annualPremium (Fin 100))) (Fin 100),
                currency = ''EUR'',
                coverageSum = coverageAmount,
                deductible = deductibleAmount params,
                territory = ''Worldwide'',
                includedRisks = [''personal_injury'', ''property_damage'', ''financial_loss''],
                extensions = extensions,
                validUntil = Date_toISOString env
                               (Date_now_valid env + 30 * 24 * 60 * 60 * 1000),
                tariffLine' = tariffLine params,
                familyCoverage' = familyCoverage params \<rparr>))"

subsection \<open>formatQuoteSummary\<close>

text \<open>
  \<^verbatim>\<open>quote.coverageSum.toLocaleString()\<close> raises a \<^verbatim>\<open>TypeError\<close> when \<open>coverageSum\<close> is
  \<^verbatim>\<open>undefined\<close>; it is the second statement, so the first \<^verbatim>\<open>push\<close> has happened by then.
\<close>

definition formatQuoteSummary :: "env \<Rightarrow> LiabilityQuote \<Rightarrow> thrown + string" where
  "formatQuoteSummary env q =
    (let parts = [];
         parts = push parts (''Liability Insurance Quote: '' @ euro
                   @ Number_toString env (monthlyPremium q) @ ''/month ('' @ euro
                   @ Number_toString env (annualPremium q) @ ''/year)'')
     in case coverageSum q of
          None \<Rightarrow> Inl (OtherError (TypeError_message env))
        | Some cs \<Rightarrow>
           (let parts = push parts (''Coverage: '' @ euro @ Number_toLocaleString env cs
                          @ '' '' @ tariffLine' q);
                parts = (if js_gt (deductible q) (Fin 0)
                         then push parts (''Deductible: '' @ euro
                                @ Number_toString env (deductible q))
                         else push parts ''No deductible'');
                parts = (if familyCoverage' q
                         then push parts ''Includes family coverage'' else parts);
                parts = (if Array_includes (extensions q) ''drones_coverage''
                         then push parts ''Includes drone liability'' else parts);
                parts = push parts (''Territory: '' @ territory q);
                parts = push parts (''Valid until: ''
                          @ Date_toLocaleDateString env (validUntil q))
            in Inr (join ''. '' parts @ ''.'')))"

section \<open>The tool handler (src/tools/liability-quote-tool.ts)\<close>

text \<open>The \<^verbatim>\<open>catch\<close> block.\<close>

fun handler_catch :: "thrown \<Rightarrow> LiabilityQuoteResult" where
  "handler_catch (ValidationError message details) =
     \<lparr> success = False, quote = None,
       error = Some (''Validation error: '' @ message),
       summary = ''Failed to calculate quote: ''
         @ (case details of
              None \<Rightarrow> message
            | Some ds \<Rightarrow> (if join '', '' ds = [] then message else join '', '' ds)) \<rparr>"
| "handler_catch (OtherError message) =
     \<lparr> success = False, quote = None,
       error = Some message,
       summary = ''Failed to calculate quote due to an unexpected error'' \<rparr>"
| "handler_catch (NonError v) =
     \<lparr> success = False, quote = None,
       error = Some ''Unknown error'',
       summary = ''Failed to calculate quote due to an unexpected error'' \<rparr>"

text \<open>
  The \<^verbatim>\<open>try\<close> statement of the handler, for a client given by its two methods: whatever
  \<^verbatim>\<open>client.calculateQuote\<close> or \<^verbatim>\<open>client.formatQuoteSummary\<close> throws goes to the
  \<^verbatim>\<open>catch\<close> block.
\<close>

definition handler_of ::
  "(LiabilityConfiguration \<Rightarrow> thrown + LiabilityQuote) \<Rightarrow> (LiabilityQuote \<Rightarrow> thrown + string)
     \<Rightarrow> LiabilityConfiguration \<Rightarrow> LiabilityQuoteResult" where
  "handler_of client_calculateQuote client_formatQuoteSummary params =
    (case client_calculateQuote params of
       Inl e \<Rightarrow> handler_catch e
     | Inr q \<Rightarrow>
        (case client_formatQuoteSummary q of
           Inl e \<Rightarrow> handler_catch e
         | Inr s \<Rightarrow> \<lparr> success = True, quote = Some q, error = None, summary = s \<rparr>))"

text \<open>
  The handler that \<^verbatim>\<open>createLiabilityQuoteTool\<close> returns: its client is
  \<^verbatim>\<open>new LiabilityClient()\<close>.
\<close>

definition handler :: "env \<Rightarrow> LiabilityConfiguration \<Rightarrow> LiabilityQuoteResult" where
  "handler env params =
     handler_of (calculateQuote env) (formatQuoteSummary env) params"

section \<open>Test fixtures (README.md, tests/liability-client.test.ts)\<close>

text \<open>
  A runtime for the examples: it parses the date of the examples, and prints the numbers
  and dates that occur in them.
\<close>

definition test_env :: env where
  "test_env =
     \<lparr> Date_getTime = (\<lambda>s. if s = ''2025-01-01'' then Fin 1735689600000 else NaN),
       Date_now_id = 1734539123456,
       Date_now_valid = 1734539123456,
       Math_random_suffix = ''abc123'',
       Number_toString = (\<lambda>n.
         if n = Fin 150 then ''150''
         else if n = fl (1349 / 100) then ''13.49''
         else if n = fl (16184 / 100) then ''161.84''
         else if n = Fin 1734539123456 then ''1734539123456''
         else ''NaN''),
       Number_toLocaleString = (\<lambda>n. if n = Fin 10000000 then ''10,000,000'' else ''NaN''),
       Date_toISOString = (\<lambda>t. ''2025-01-18T12:34:56.789Z''),
       Date_toLocaleDateString = (\<lambda>s. ''1/18/2025''),
       TypeError_message = ''Cannot read properties of undefined'' \<rparr>"

text \<open>The example request of the README.\<close>

definition test_params :: LiabilityConfiguration where
  "test_params =
     \<lparr> zipCode = ''10115'', tariffLine = ''comfort'', familyCoverage = True,
       dronesCoverage = False, deductibleAmount = Fin 150, previousInsurance = False,
       numberOfClaims = Fin 0, cancelledByInsurer = False, effectiveDate = ''2025-01-01'',
       coverageAmount = None \<rparr>"

text \<open>
  The quote of the README's example response, with the annual premium that the code
  computes for it.
\<close>

definition test_quote :: LiabilityQuote where
  "test_quote =
     \<lparr> quoteId = ''quote_1734539123456_abc123'',
       monthlyPremium = fl (1349 / 100), annualPremium = fl (16184 / 100),
       currency = ''EUR'', coverageSum = Some (Fin 10000000), deductible = Fin 150,
       territory = ''Worldwide'',
       includedRisks = [''personal_injury'', ''property_damage'', ''financial_loss''],
       extensions = [''family_coverage''], validUntil = ''2025-01-18T12:34:56.789Z'',
       tariffLine' = ''comfort'', familyCoverage' = True \<rparr>"

section \<open>An auxiliary notion for the proofs\<close>

text \<open>\<open>in_range k n\<close>: the number \<open>n\<close> is finite, not negative and at most \<open>2^k\<close>.\<close>

abbreviation in_range :: "nat \<Rightarrow> number \<Rightarrow> bool" where
  "in_range k n \<equiv> (\<exists>y. n = Fin y \<and> 0 \<le> y \<and> y \<le> 2 ^ k)"

section \<open>Facts about binary64 rounding\<close>

lemma pow2_powi: "pow2 k = 2 powi k"
  by (simp add: pow2_def power_int_def field_simps)

lemma pow2_pos: "0 < pow2 k"
  by (simp add: pow2_powi zero_less_power_int)

lemma pow2_add: "pow2 (a + b) = pow2 a * pow2 b"
  by (simp add: pow2_powi power_int_add)

lemma pow2_diff: "pow2 (a - b) = pow2 a / pow2 b"
  by (simp add: pow2_powi power_int_diff)

lemma pow2_mono: "a \<le> b \<Longrightarrow> pow2 a \<le> pow2 b"
  by (simp add: pow2_powi power_int_increasing)

lemma pow2_strict_mono: "a < b \<Longrightarrow> pow2 a < pow2 b"
  by (simp add: pow2_powi power_int_strict_increasing)

lemma pow2_nat: "pow2 (int n) = 2 ^ n"
  by (simp add: pow2_def)

lemma ilog2_bounds:
  assumes "0 < x"
  shows "pow2 (ilog2 x) \<le> x \<and> x < pow2 (ilog2 x + 1)"
proof -
  obtain p q where pq: "quotient_of x = (p, q)"
    by (cases "quotient_of x")
  have q: "0 < q"
    using pq by (rule quotient_of_denom_pos)
  have x: "x = of_int p / of_int q"
    using pq by (rule quotient_of_div)
  have p: "0 < p"
    using assms q x by (simp add: zero_less_divide_iff)
  define bp where "bp = floorlog 2 (nat p)"
  define bq where "bq = floorlog 2 (nat q)"
  define d where "d = int bp - int bq"
  have bp: "2 ^ (bp - 1) \<le> nat p \<and> nat p < 2 ^ bp"
    using floorlog_bounds [of "nat p" 2] p by (simp add: bp_def)
  have bq: "2 ^ (bq - 1) \<le> nat q \<and> nat q < 2 ^ bq"
    using floorlog_bounds [of "nat q" 2] q by (simp add: bq_def)
  have bp0: "0 < bp"
    using p floorlog_eq_zero_iff [of 2 "nat p"] by (simp add: bp_def)
  have bq0: "0 < bq"
    using q floorlog_eq_zero_iff [of 2 "nat q"] by (simp add: bq_def)
  have P: "(2::rat) ^ (bp - 1) \<le> of_int p \<and> (of_int p :: rat) < 2 ^ bp"
  proof -
    have i: "2 ^ (bp - 1) \<le> p \<and> p < 2 ^ bp"
      using bp p by (simp add: le_nat_iff nat_less_iff)
    have "(of_int (2 ^ (bp - 1)) :: rat) \<le> of_int p"
      using i by (simp only: of_int_le_iff)
    moreover have "(of_int p :: rat) < of_int (2 ^ bp)"
      using i by (simp only: of_int_less_iff)
    ultimately show ?thesis
      by simp
  qed
  have Q: "(2::rat) ^ (bq - 1) \<le> of_int q \<and> (of_int q :: rat) < 2 ^ bq"
  proof -
    have i: "2 ^ (bq - 1) \<le> q \<and> q < 2 ^ bq"
      using bq q by (simp add: le_nat_iff nat_less_iff)
    have "(of_int (2 ^ (bq - 1)) :: rat) \<le> of_int q"
      using i by (simp only: of_int_le_iff)
    moreover have "(of_int q :: rat) < of_int (2 ^ bq)"
      using i by (simp only: of_int_less_iff)
    ultimately show ?thesis
      by simp
  qed
  have lo: "pow2 (d - 1) \<le> x"
  proof -
    have "d - 1 = int (bp - 1) - int bq"
      using bp0 by (simp add: d_def)
    then have "pow2 (d - 1) = 2 ^ (bp - 1) / 2 ^ bq"
      by (simp only: pow2_diff pow2_nat)
    also have "\<dots> \<le> of_int p / of_int q"
      using P Q p q by (intro frac_le) simp_all
    finally show ?thesis
      by (simp add: x)
  qed
  have hi: "x < pow2 (d + 1)"
  proof -
    have "d + 1 = int bp - int (bq - 1)"
      using bq0 by (simp add: d_def)
    then have "pow2 (d + 1) = 2 ^ bp / 2 ^ (bq - 1)"
      by (simp only: pow2_diff pow2_nat)
    moreover have "of_int p / of_int q < (2::rat) ^ bp / 2 ^ (bq - 1)"
      using P Q p q by (intro frac_less) simp_all
    ultimately show ?thesis
      by (simp add: x)
  qed
  have il: "ilog2 x = (if pow2 d \<le> x then d else d - 1)"
    by (simp add: ilog2_def pq Let_def d_def bp_def bq_def)
  show ?thesis
    using lo hi by (simp add: il)
qed

lemma ilog2_unique:
  assumes "0 < x" "pow2 e \<le> x" "x < pow2 (e + 1)"
  shows "ilog2 x = e"
proof (rule antisym)
  have b: "pow2 (ilog2 x) \<le> x \<and> x < pow2 (ilog2 x + 1)"
    using assms(1) by (rule ilog2_bounds)
  show "ilog2 x \<le> e"
  proof (rule ccontr)
    assume "\<not> ilog2 x \<le> e"
    then have "e + 1 \<le> ilog2 x" by simp
    then have "pow2 (e + 1) \<le> pow2 (ilog2 x)" by (rule pow2_mono)
    then show False using b assms(3) by simp
  qed
  show "e \<le> ilog2 x"
  proof (rule ccontr)
    assume "\<not> e \<le> ilog2 x"
    then have "ilog2 x + 1 \<le> e" by simp
    then have "pow2 (ilog2 x + 1) \<le> pow2 e" by (rule pow2_mono)
    then show False using b assms(2) by simp
  qed
qed

lemma round_half_even_unique:
  assumes "\<bar>r - of_int m\<bar> < 1 / 2"
  shows "round_half_even r = m"
proof (cases "of_int m \<le> r")
  case True
  then have "\<lfloor>r\<rfloor> = m"
    using assms by (intro floor_unique) simp_all
  then show ?thesis
    using assms True by (simp add: round_half_even_def Let_def)
next
  case False
  then have "\<lfloor>r\<rfloor> = m - 1"
    using assms by (intro floor_unique) simp_all
  then show ?thesis
    using assms False by (simp add: round_half_even_def Let_def)
qed

lemma round_half_even_le:
  assumes "r \<le> of_int N"
  shows "round_half_even r \<le> N"
proof (cases "r = of_int N")
  case True
  then show ?thesis
    by (simp add: round_half_even_def Let_def)
next
  case False
  then have "r < of_int N"
    using assms by simp
  then have "\<lfloor>r\<rfloor> < N"
    by (simp add: floor_less_iff)
  then show ?thesis
    by (simp add: round_half_even_def Let_def)
qed

lemma round_half_even_nonneg:
  assumes "0 \<le> r"
  shows "0 \<le> round_half_even r"
proof -
  have "0 \<le> \<lfloor>r\<rfloor>"
    using assms by simp
  then show ?thesis
    by (simp add: round_half_even_def Let_def)
qed

lemma round_half_even_tie:
  assumes "r = of_int f + 1 / 2"
  shows "round_half_even r = (if even f then f else f + 1)"
proof -
  have "\<lfloor>r\<rfloor> = f"
    using assms by (intro floor_unique) simp_all
  then show ?thesis
    using assms by (simp add: round_half_even_def Let_def)
qed

lemma fl_normal:
  assumes "0 < x" "- 1022 \<le> e" "e \<le> 1022" "pow2 e \<le> x" "x < pow2 (e + 1)"
  shows "fl x = Fin (of_int (round_half_even (x / pow2 (e - 52))) * pow2 (e - 52))"
proof -
  define u where "u = pow2 (e - 52)"
  define m where "m = round_half_even (x / u)"
  have u: "0 < u"
    by (simp add: u_def pow2_pos)
  have e: "ilog2 \<bar>x\<bar> = e"
    using assms(1,4,5) by (intro ilog2_unique) simp_all
  have r: "round_half_even (\<bar>x\<bar> / u) = m"
    using assms(1) by (simp add: m_def)
  have "x / u \<le> pow2 (e + 1) / u"
    using assms(5) u by (simp add: divide_right_mono)
  also have "pow2 (e + 1) / u = pow2 53"
    using pow2_diff [of "e + 1" "e - 52"] by (simp add: u_def)
  also have "\<dots> = of_int (2 ^ 53)"
    by (simp add: pow2_def)
  finally have "m \<le> 2 ^ 53"
    unfolding m_def by (rule round_half_even_le)
  then have "(of_int m :: rat) \<le> of_int (2 ^ 53)"
    by (simp only: of_int_le_iff)
  then have "of_int m * u \<le> pow2 53 * u"
    using u by (simp add: pow2_def)
  also have "pow2 53 * u = pow2 (e + 1)"
    using pow2_add [of 53 "e - 52"] by (simp add: u_def add.commute)
  also have "\<dots> \<le> pow2 1023"
    using assms(3) by (intro pow2_mono) simp
  also have "\<dots> < pow2 1024"
    by (intro pow2_strict_mono) simp
  finally have y: "\<not> pow2 1024 \<le> of_int m * u"
    by simp
  have m: "max e (- 1022) = e"
    using assms(2) by simp
  have "fl x = Fin (of_int m * u)"
    using assms(1) y unfolding fl_def e m Let_def u_def [symmetric] r
    by simp
  then show ?thesis
    by (simp only: m_def u_def)
qed

lemma fl_eval:
  assumes "0 < x" "- 1022 \<le> e" "e \<le> 1022" "pow2 e \<le> x" "x < pow2 (e + 1)"
    and "\<bar>x / pow2 (e - 52) - of_int m\<bar> < 1 / 2"
  shows "fl x = Fin (of_int m * pow2 (e - 52))"
  using fl_normal [OF assms(1-5)] round_half_even_unique [OF assms(6)] by simp

lemma fl_eval_tie:
  assumes "0 < x" "- 1022 \<le> e" "e \<le> 1022" "pow2 e \<le> x" "x < pow2 (e + 1)"
    and "x / pow2 (e - 52) = of_int f + 1 / 2"
  shows "fl x = Fin (of_int (if even f then f else f + 1) * pow2 (e - 52))"
  using fl_normal [OF assms(1-5)] round_half_even_tie [OF assms(6)] by simp

lemma fl_bounded:
  assumes "0 \<le> x" "x \<le> 2 ^ k" "k \<le> 1023"
  shows "\<exists>y. fl x = Fin y \<and> 0 \<le> y \<and> y \<le> 2 ^ k"
proof (cases "x = 0")
  case True
  then show ?thesis
    by (simp add: fl_def)
next
  case False
  then have x: "0 < x"
    using assms(1) by simp
  define e where "e = max (ilog2 \<bar>x\<bar>) (- 1022)"
  define u where "u = pow2 (e - 52)"
  define m where "m = round_half_even (\<bar>x\<bar> / u)"
  have u: "0 < u"
    by (simp add: u_def pow2_pos)
  have "ilog2 x \<le> int k"
  proof (rule ccontr)
    assume "\<not> ilog2 x \<le> int k"
    then have "int k + 1 \<le> ilog2 x" by simp
    then have "pow2 (int k + 1) \<le> pow2 (ilog2 x)" by (rule pow2_mono)
    moreover have "pow2 (int k) < pow2 (int k + 1)" by (intro pow2_strict_mono) simp
    ultimately show False
      using ilog2_bounds [OF x] assms(2) by (simp add: pow2_nat)
  qed
  then have ek: "e \<le> int k"
    using x by (simp add: e_def)
  define N where "N = (2::int) ^ nat (int k - e + 52)"
  have N: "(of_int N :: rat) = pow2 (int k - e + 52)"
    using ek by (simp add: N_def pow2_def)
  have Nu: "of_int N * u = 2 ^ k"
    using pow2_add [of "int k - e + 52" "e - 52"] by (simp add: N u_def pow2_nat)
  have "\<bar>x\<bar> / u \<le> 2 ^ k / u"
    using assms(2) x u by (simp add: divide_right_mono)
  also have "\<dots> = of_int N"
    using Nu u by (simp add: field_simps)
  finally have mN: "m \<le> N"
    unfolding m_def by (rule round_half_even_le)
  have m0: "0 \<le> m"
    unfolding m_def using x u by (intro round_half_even_nonneg) simp
  have "(of_int m :: rat) \<le> of_int N"
    using mN by (simp only: of_int_le_iff)
  then have "of_int m * u \<le> of_int N * u"
    using u by simp
  then have yk: "of_int m * u \<le> 2 ^ k"
    by (simp only: Nu)
  have "(2::rat) ^ k \<le> 2 ^ 1023"
    using assms(3) by (intro power_increasing) simp_all
  also have "\<dots> < pow2 1024"
    by (simp add: pow2_def)
  finally have y: "\<not> pow2 1024 \<le> of_int m * u"
    using yk by simp
  have y0: "0 \<le> of_int m * u"
    using m0 u by simp
  have "fl x = Fin (of_int m * u)"
    using x y unfolding fl_def Let_def e_def [symmetric] u_def [symmetric] m_def [symmetric]
    by simp
  then show ?thesis
    using yk y0 by simp
qed

section \<open>Facts about validateInput\<close>

lemma push_if: "(if c then push xs m else xs) = xs @ (if c then [m] else [])"
  by (simp add: push_def)

lemma push_if_nested:
  "(if c then xs @ (if d then [m] else []) else xs) = xs @ (if c \<and> d then [m] else [])"
  by simp

lemma ValidationResult_of_errors:
  "\<lparr> valid = (length es = 0), errors = (if length es > 0 then Some es else None) \<rparr>
   = \<lparr> valid = (es = []), errors = (if es = [] then None else Some es) \<rparr>"
  by simp

lemma zipCode_check:
  "(z = [] \<or> length z \<noteq> 5 \<or> \<not> regex_5digits_test z)
   = (\<not> (length z = 5 \<and> list_all is_digit z))"
  by (auto simp: regex_5digits_test_def)

lemma tariffLine_check:
  "(\<not> Array_includes [''basic'', ''comfort'', ''premium''] t)
   = (t \<notin> {''basic'', ''comfort'', ''premium''})"
  by (simp only: Array_includes_def list.set)

lemma deductibleAmount_check:
  "(\<not> Array_includes [Fin 0, Fin 150, Fin 300, Fin 500] d)
   = (d \<notin> {Fin 0, Fin 150, Fin 300, Fin 500})"
  by (simp only: Array_includes_def list.set)

lemma validateInput_eq:
  "validateInput env p =
    (let errs =
       (if \<not> (length (zipCode p) = 5 \<and> list_all is_digit (zipCode p))
        then [''Invalid German postal code (must be 5 digits)''] else [])
     @ (if tariffLine p \<notin> {''basic'', ''comfort'', ''premium''}
        then [''Invalid tariff line (must be basic, comfort, or premium)''] else [])
     @ (if deductibleAmount p \<notin> {Fin 0, Fin 150, Fin 300, Fin 500}
        then [''Invalid deductible amount (must be 0, 150, 300, or 500)''] else [])
     @ (if js_lt (numberOfClaims p) (Fin 0)
        then [''Number of claims cannot be negative''] else [])
     @ (if js_gt (numberOfClaims p) (Fin 10)
        then [''Number of claims exceeds maximum allowed (10)''] else [])
     @ (if isNaN (Date_getTime env (effectiveDate p))
        then [''Invalid effective date format''] else [])
     @ (if truthy (coverageAmount p)
           \<and> (js_lt (toNumber (coverageAmount p)) (Fin 5000000)
              \<or> js_gt (toNumber (coverageAmount p)) (Fin 20000000))
        then [''Coverage amount must be between '' @ euro @ ''5,000,000 and '' @ euro
                @ ''20,000,000'']
        else [])
     in \<lparr> valid = (errs = []), errors = (if errs = [] then None else Some errs) \<rparr>)"
  unfolding validateInput_def Let_def push_if push_if_nested ValidationResult_of_errors
    zipCode_check tariffLine_check deductibleAmount_check append_Nil append_assoc
  by (rule refl)

lemma if_singleton_Nil: "((if c then [m] else []) = []) = (\<not> c)"
  by simp

lemma valid_iff:
  "valid (validateInput env p) \<longleftrightarrow>
     (length (zipCode p) = 5 \<and> list_all is_digit (zipCode p))
   \<and> tariffLine p \<in> {''basic'', ''comfort'', ''premium''}
   \<and> deductibleAmount p \<in> {Fin 0, Fin 150, Fin 300, Fin 500}
   \<and> \<not> js_lt (numberOfClaims p) (Fin 0)
   \<and> \<not> js_gt (numberOfClaims p) (Fin 10)
   \<and> \<not> isNaN (Date_getTime env (effectiveDate p))
   \<and> \<not> (truthy (coverageAmount p)
         \<and> (js_lt (toNumber (coverageAmount p)) (Fin 5000000)
            \<or> js_gt (toNumber (coverageAmount p)) (Fin 20000000)))"
  unfolding validateInput_eq Let_def ValidationResult.simps append_is_Nil_conv
    if_singleton_Nil not_not
  by (rule refl)

lemma test_params_valid: "valid (validateInput test_env test_params)"
  by (simp add: valid_iff test_env_def test_params_def is_digit_def isNaN_def js_gt_def)

text \<open>The error list of a validation result, empty when \<open>errors\<close> is \<^verbatim>\<open>undefined\<close>.\<close>

lemma errors_of_list:
  "(case (if es = [] then None else Some es) of None \<Rightarrow> [] | Some x \<Rightarrow> x) = es"
  by simp

lemma in_set_if_singleton: "(x \<in> set (if c then [m] else [])) = (c \<and> x = m)"
  by auto

lemma ball_if_singleton: "(\<forall>e\<in>set (if c then [m] else []). P e) = (c \<longrightarrow> P m)"
  by simp

lemma invalid_errors:
  assumes "\<not> valid (validateInput env p)"
  shows "\<exists>es. es \<noteq> [] \<and> errors (validateInput env p) = Some es
           \<and> (\<forall>e\<in>set es. e \<in> {''Invalid German postal code (must be 5 digits)'',
                ''Invalid tariff line (must be basic, comfort, or premium)'',
                ''Invalid deductible amount (must be 0, 150, 300, or 500)'',
                ''Number of claims cannot be negative'',
                ''Number of claims exceeds maximum allowed (10)'',
                ''Invalid effective date format'',
                ''Coverage amount must be between '' @ euro @ ''5,000,000 and '' @ euro
                   @ ''20,000,000''})"
proof -
  define es where "es =
       (if \<not> (length (zipCode p) = 5 \<and> list_all is_digit (zipCode p))
        then [''Invalid German postal code (must be 5 digits)''] else [])
     @ (if tariffLine p \<notin> {''basic'', ''comfort'', ''premium''}
        then [''Invalid tariff line (must be basic, comfort, or premium)''] else [])
     @ (if deductibleAmount p \<notin> {Fin 0, Fin 150, Fin 300, Fin 500}
        then [''Invalid deductible amount (must be 0, 150, 300, or 500)''] else [])
     @ (if js_lt (numberOfClaims p) (Fin 0)
        then [''Number of claims cannot be negative''] else [])
     @ (if js_gt (numberOfClaims p) (Fin 10)
        then [''Number of claims exceeds maximum allowed (10)''] else [])
     @ (if isNaN (Date_getTime env (effectiveDate p))
        then [''Invalid effective date format''] else [])
     @ (if truthy (coverageAmount p)
           \<and> (js_lt (toNumber (coverageAmount p)) (Fin 5000000)
              \<or> js_gt (toNumber (coverageAmount p)) (Fin 20000000))
        then [''Coverage amount must be between '' @ euro @ ''5,000,000 and '' @ euro
                @ ''20,000,000'']
        else [])"
  have v: "validateInput env p
      = \<lparr> valid = (es = []), errors = (if es = [] then None else Some es) \<rparr>"
    unfolding validateInput_eq [of env p] Let_def es_def by (rule refl)
  have s: "\<forall>e\<in>set es. e \<in> {''Invalid German postal code (must be 5 digits)'',
                ''Invalid tariff line (must be basic, comfort, or premium)'',
                ''Invalid deductible amount (must be 0, 150, 300, or 500)'',
                ''Number of claims cannot be negative'',
                ''Number of claims exceeds maximum allowed (10)'',
                ''Invalid effective date format'',
                ''Coverage amount must be between '' @ euro @ ''5,000,000 and '' @ euro
                   @ ''20,000,000''}"
    unfolding es_def set_append ball_Un ball_if_singleton
    by simp
  from assms v have "es \<noteq> []"
    by simp
  then show ?thesis
    using v s by simp
qed

lemma coverage_error_iff:
  "(''Coverage amount must be between '' @ euro @ ''5,000,000 and '' @ euro @ ''20,000,000''
      \<in> set (case errors (validateInput env p) of None \<Rightarrow> [] | Some es \<Rightarrow> es))
   = (truthy (coverageAmount p)
      \<and> (js_lt (toNumber (coverageAmount p)) (Fin 5000000)
         \<or> js_gt (toNumber (coverageAmount p)) (Fin 20000000)))"
  unfolding validateInput_eq [of env p] Let_def ValidationResult.simps errors_of_list
    set_append Un_iff in_set_if_singleton
  by simp

section \<open>Facts about the premium computation\<close>

lemma in_range_fl:
  assumes "0 \<le> x" "x \<le> 2 ^ k" "k \<le> 1023"
  shows "in_range k (fl x)"
  using assms by (rule fl_bounded)

lemma in_range_mono:
  assumes "in_range i n" "i \<le> j"
  shows "in_range j n"
proof -
  from assms(1) obtain y where y: "n = Fin y" "0 \<le> y" "y \<le> 2 ^ i"
    by blast
  have "(2::rat) ^ i \<le> 2 ^ j"
    using assms(2) by (intro power_increasing) simp_all
  with y(3) have "y \<le> 2 ^ j"
    by (rule order_trans)
  then show ?thesis
    using y(1,2) by blast
qed

lemma in_range_mul:
  assumes "in_range i a" "in_range j b" "i + j \<le> 1023"
  shows "in_range (i + j) (js_mul a b)"
proof -
  from assms(1) obtain x where x: "a = Fin x" "0 \<le> x" "x \<le> 2 ^ i"
    by blast
  from assms(2) obtain y where y: "b = Fin y" "0 \<le> y" "y \<le> 2 ^ j"
    by blast
  have "x * y \<le> 2 ^ i * 2 ^ j"
    using x y by (intro mult_mono) simp_all
  then have "x * y \<le> 2 ^ (i + j)"
    by (simp add: power_add)
  moreover have "0 \<le> x * y"
    using x y by simp
  ultimately have "in_range (i + j) (fl (x * y))"
    using assms(3) by (intro in_range_fl)
  then show ?thesis
    by (simp add: x y)
qed

lemma in_range_add:
  assumes "in_range i a" "in_range i b" "i < 1023"
  shows "in_range (Suc i) (js_add a b)"
proof -
  from assms(1) obtain x where x: "a = Fin x" "0 \<le> x" "x \<le> 2 ^ i"
    by blast
  from assms(2) obtain y where y: "b = Fin y" "0 \<le> y" "y \<le> 2 ^ i"
    by blast
  have "x + y \<le> 2 ^ Suc i"
    using x y by simp
  moreover have "0 \<le> x + y"
    using x y by simp
  ultimately have "in_range (Suc i) (fl (x + y))"
    using assms(3) by (intro in_range_fl) simp_all
  then show ?thesis
    by (simp add: x y)
qed

lemma in_range_round:
  assumes "in_range k a"
  shows "in_range k (Math_round a)"
proof -
  from assms obtain x where x: "a = Fin x" "0 \<le> x" "x \<le> 2 ^ k"
    by blast
  have "x + 1 / 2 < of_int (2 ^ k) + 1"
    using x by simp
  then have "\<lfloor>x + 1 / 2\<rfloor> < 2 ^ k + 1"
    by (simp only: floor_less_iff of_int_add of_int_1)
  then have "\<lfloor>x + 1 / 2\<rfloor> \<le> 2 ^ k"
    by simp
  then have "(of_int \<lfloor>x + 1 / 2\<rfloor> :: rat) \<le> of_int (2 ^ k)"
    by (simp only: of_int_le_iff)
  moreover have "0 \<le> \<lfloor>x + 1 / 2\<rfloor>"
    using x by simp
  ultimately show ?thesis
    by (simp add: x)
qed

lemma in_range_div_100:
  assumes "in_range k a" "k \<le> 1023"
  shows "in_range k (js_div a (Fin 100))"
proof -
  from assms obtain x where x: "a = Fin x" "0 \<le> x" "x \<le> 2 ^ k"
    by blast
  have "x / 100 \<le> x"
    using x by simp
  then have "x / 100 \<le> 2 ^ k"
    using x by simp
  moreover have "0 \<le> x / 100"
    using x by simp
  ultimately have "in_range k (fl (x / 100))"
    using assms(2) by (intro in_range_fl)
  then show ?thesis
    by (simp add: x)
qed

lemma in_range_ge_0:
  assumes "in_range k n"
  shows "js_ge n (Fin 0)"
  using assms by (auto simp: js_ge_def)

lemma claims_in_range:
  assumes "js_gt n (Fin 0)" "\<not> js_gt n (Fin 10)"
  shows "in_range 4 n"
  using assms by (cases n) (simp_all add: js_gt_def)

lemma rawMonthlyPremium_in_range:
  assumes "valid (validateInput env p)"
  shows "in_range 12 (rawMonthlyPremium p)"
proof -
  define m0 where "m0 = toNumber (basePremiums (tariffLine p))"
  define m1 where "m1 = (if familyCoverage p then js_mul m0 (fl (15 / 10)) else m0)"
  define m2 where "m2 = (if dronesCoverage p then js_add m1 (fl (250 / 100)) else m1)"
  define m3 where "m3 = js_mul m2 (toNumber (deductibleDiscounts (deductibleAmount p)))"
  define m4 where "m4 = (if js_gt (numberOfClaims p) (Fin 0)
      then js_mul m3 (js_add (Fin 1) (js_mul (numberOfClaims p) (fl (15 / 100)))) else m3)"
  define m5 where "m5 = (if cancelledByInsurer p then js_mul m4 (fl (13 / 10)) else m4)"
  have r: "rawMonthlyPremium p = m5"
    unfolding rawMonthlyPremium_def Let_def m5_def m4_def m3_def m2_def m1_def m0_def
    by (rule refl)
  note v = assms [unfolded valid_iff]
  from v have t: "tariffLine p \<in> {''basic'', ''comfort'', ''premium''}"
    by blast
  from v have d: "deductibleAmount p \<in> {Fin 0, Fin 150, Fin 300, Fin 500}"
    by blast
  from v have c: "\<not> js_gt (numberOfClaims p) (Fin 10)"
    by blast
  have l1: "in_range 4 (fl (599 / 100))" "in_range 4 (fl (999 / 100))" "in_range 4 (fl (1499 / 100))"
    by (rule in_range_fl; simp)+
  have l2: "in_range 1 (fl (15 / 10))" "in_range 5 (fl (250 / 100))" "in_range 1 (fl (13 / 10))"
    by (rule in_range_fl; simp)+
  have l3: "in_range 0 (fl 1)" "in_range 0 (fl (9 / 10))" "in_range 0 (fl (85 / 100))"
    "in_range 0 (fl (8 / 10))" "in_range 0 (fl (15 / 100))"
    by (rule in_range_fl; simp)+
  have w0: "in_range 4 m0"
    using t l1 by (auto simp: m0_def basePremiums_def)
  have w1: "in_range 5 m1"
  proof (cases "familyCoverage p")
    case True
    then show ?thesis
      using in_range_mul [OF w0 l2(1)] by (simp add: m1_def)
  next
    case False
    then show ?thesis
      using in_range_mono [OF w0, of 5] by (simp add: m1_def)
  qed
  have w2: "in_range 6 m2"
  proof (cases "dronesCoverage p")
    case True
    then show ?thesis
      using in_range_add [OF w1 l2(2)] by (simp add: m2_def)
  next
    case False
    then show ?thesis
      using in_range_mono [OF w1, of 6] by (simp add: m2_def)
  qed
  have wd: "in_range 0 (toNumber (deductibleDiscounts (deductibleAmount p)))"
    using d l3 by (auto simp: deductibleDiscounts_def)
  have w3: "in_range 6 m3"
    using in_range_mul [OF w2 wd] by (simp add: m3_def)
  have w4: "in_range 11 m4"
  proof (cases "js_gt (numberOfClaims p) (Fin 0)")
    case True
    have n: "in_range 4 (numberOfClaims p)"
      using True c by (rule claims_in_range)
    have "in_range (4 + 0) (js_mul (numberOfClaims p) (fl (15 / 100)))"
      using n l3(5) by (rule in_range_mul) simp
    then have x: "in_range 4 (js_mul (numberOfClaims p) (fl (15 / 100)))"
      by simp
    have one: "in_range 4 (Fin 1)"
      by simp
    have "in_range (Suc 4) (js_add (Fin 1) (js_mul (numberOfClaims p) (fl (15 / 100))))"
      using one x by (rule in_range_add) simp
    then have k: "in_range 5 (js_add (Fin 1) (js_mul (numberOfClaims p) (fl (15 / 100))))"
      by simp
    have "in_range (6 + 5)
        (js_mul m3 (js_add (Fin 1) (js_mul (numberOfClaims p) (fl (15 / 100)))))"
      using w3 k by (rule in_range_mul) simp
    then show ?thesis
      using True by (simp add: m4_def)
  next
    case False
    then show ?thesis
      using in_range_mono [OF w3, of 11] by (simp add: m4_def)
  qed
  have "in_range 12 m5"
  proof (cases "cancelledByInsurer p")
    case True
    then show ?thesis
      using in_range_mul [OF w4 l2(3)] by (simp add: m5_def)
  next
    case False
    then show ?thesis
      using in_range_mono [OF w4, of 12] by (simp add: m5_def)
  qed
  then show ?thesis
    by (simp only: r)
qed

subsection \<open>The binary64 values of scenario 3\<close>

text \<open>
  Every rounding that the computation for comfort, family coverage, deductible 150 and one
  claim performs, with its exponent and significand given to \<open>fl_eval\<close>.
\<close>

lemma scenario3_fl_1: "fl (999 / 100) = Fin (5623870034678907 / 562949953421312)"
  using fl_eval [of "999 / 100" "3" "5623870034678907"] by (simp add: pow2_def)

lemma scenario3_fl_2: "fl (3 / 2) = Fin (3 / 2)"
  using fl_eval [of "3 / 2" "0" "6755399441055744"] by (simp add: pow2_def)

lemma scenario3_fl_3: "fl (16871610104036721 / 1125899906842624) = Fin (1054475631502295 / 70368744177664)"
  using fl_eval_tie [of "16871610104036721 / 1125899906842624" "3" "8435805052018360"] by (simp add: pow2_def)

lemma scenario3_fl_4: "fl (9 / 10) = Fin (8106479329266893 / 9007199254740992)"
  using fl_eval [of "9 / 10" "-1" "8106479329266893"] by (simp add: pow2_def)

lemma scenario3_fl_5: "fl (8548084909989007798278597019435 / 633825300114114700748351602688) = Fin (1898056136704131 / 140737488355328)"
  using fl_eval [of "8548084909989007798278597019435 / 633825300114114700748351602688" "3" "7592224546816524"] by (simp add: pow2_def)

lemma scenario3_fl_6: "fl (3 / 20) = Fin (5404319552844595 / 36028797018963968)"
  using fl_eval [of "3 / 20" "-3" "5404319552844595"] by (simp add: pow2_def)

lemma scenario3_fl_7: "fl (5404319552844595 / 36028797018963968) = Fin (5404319552844595 / 36028797018963968)"
  using fl_eval [of "5404319552844595 / 36028797018963968" "-3" "5404319552844595"] by (simp add: pow2_def)

lemma scenario3_fl_8: "fl (41433116571808563 / 36028797018963968) = Fin (2589569785738035 / 2251799813685248)"
  using fl_eval [of "41433116571808563 / 36028797018963968" "0" "5179139571476070"] by (simp add: pow2_def)

lemma scenario3_fl_9: "fl (4915148823243678983134268322585 / 316912650057057350374175801344) = Fin (4365529114419501 / 281474976710656)"
  using fl_eval [of "4915148823243678983134268322585 / 316912650057057350374175801344" "3" "8731058228839002"] by (simp add: pow2_def)

lemma scenario3_fl_10: "fl (13096587343258503 / 70368744177664) = Fin (1637073417907313 / 8796093022208)"
  using fl_eval_tie [of "13096587343258503 / 70368744177664" "7" "6548293671629251"] by (simp add: pow2_def)

lemma scenario3_fl_11: "fl (109138227860487525 / 70368744177664) = Fin (3410569620640235 / 2199023255552)"
  using fl_eval [of "109138227860487525 / 70368744177664" "10" "6821139241280470"] by (simp add: pow2_def)

lemma scenario3_fl_12: "fl (1551 / 100) = Fin (8731353777564549 / 562949953421312)"
  using fl_eval [of "1551 / 100" "3" "8731353777564549"] by (simp add: pow2_def)

lemma scenario3_fl_13: "fl (40926835447682825 / 2199023255552) = Fin (5115854430960353 / 274877906944)"
  using fl_eval [of "40926835447682825 / 2199023255552" "14" "5115854430960353"] by (simp add: pow2_def)

lemma scenario3_fl_14: "fl (18611 / 100) = Fin (1637040872363131 / 8796093022208)"
  using fl_eval [of "18611 / 100" "7" "6548163489452524"] by (simp add: pow2_def)

lemma scenario3_fl_15: "fl (4653 / 25) = Fin (1637128833293353 / 8796093022208)"
  using fl_eval [of "4653 / 25" "7" "6548515333173412"] by (simp add: pow2_def)

lemma scenario3_fl_16: "fl (26194061332693647 / 140737488355328) = Fin (1637128833293353 / 8796093022208)"
  using fl_eval [of "26194061332693647 / 140737488355328" "7" "6548515333173412"] by (simp add: pow2_def)

lemma scenario3_floor_1: "\<lfloor>3411669132268011 / 2199023255552 :: rat\<rfloor> = 1551"
  by (rule floor_unique) simp_all

lemma scenario3_floor_2: "\<lfloor>5115991869913825 / 274877906944 :: rat\<rfloor> = 18611"
  by (rule floor_unique) simp_all

lemmas scenario3_values = scenario3_fl_1 scenario3_fl_2 scenario3_fl_3 scenario3_fl_4 scenario3_fl_5 scenario3_fl_6 scenario3_fl_7 scenario3_fl_8 scenario3_fl_9 scenario3_fl_10 scenario3_fl_11 scenario3_fl_12 scenario3_fl_13 scenario3_fl_14 scenario3_fl_15 scenario3_fl_16 scenario3_floor_1 scenario3_floor_2

subsection \<open>The binary64 values of the README example\<close>

lemma readme_fl_1: "fl (1349 / 100) = Fin (7594194871653499 / 562949953421312)"
  using fl_eval [of "1349 / 100" "3" "7594194871653499"] by (simp add: pow2_def)

lemma readme_fl_2: "fl (4046 / 25) = Fin (5694238778856571 / 35184372088832)"
  using fl_eval [of "4046 / 25" "7" "5694238778856571"] by (simp add: pow2_def)

lemmas readme_values = readme_fl_1 readme_fl_2

section \<open>Facts about the summary and the handler\<close>

lemma join_not_Nil:
  assumes "es \<noteq> []" "\<forall>e\<in>set es. e \<noteq> []"
  shows "join sep es \<noteq> []"
  using assms by (cases "(sep, es)" rule: join.cases) simp_all

lemma not_sublist_char:
  assumes "c \<in> set xs" "c \<notin> set ys"
  shows "\<not> sublist xs ys"
  using assms set_mono_sublist [of xs ys] by blast

lemma rule_messages_not_in_error_field:
  assumes "e \<in> {''Invalid German postal code (must be 5 digits)'',
                ''Invalid tariff line (must be basic, comfort, or premium)'',
                ''Invalid deductible amount (must be 0, 150, 300, or 500)'',
                ''Number of claims cannot be negative'',
                ''Number of claims exceeds maximum allowed (10)'',
                ''Invalid effective date format'',
                ''Coverage amount must be between '' @ euro @ ''5,000,000 and '' @ euro
                   @ ''20,000,000''}"
  shows "\<not> sublist e ''Validation error: Invalid parameters''"
proof -
  have "\<not> sublist ''Invalid German postal code (must be 5 digits)''
      ''Validation error: Invalid parameters''"
    by (rule not_sublist_char [of "CHR ''G''"]) simp_all
  moreover have "\<not> sublist ''Invalid tariff line (must be basic, comfort, or premium)''
      ''Validation error: Invalid parameters''"
    by (rule not_sublist_char [of "CHR ''f''"]) simp_all
  moreover have "\<not> sublist ''Invalid deductible amount (must be 0, 150, 300, or 500)''
      ''Validation error: Invalid parameters''"
    by (rule not_sublist_char [of "CHR ''u''"]) simp_all
  moreover have "\<not> sublist ''Number of claims cannot be negative''
      ''Validation error: Invalid parameters''"
    by (rule not_sublist_char [of "CHR ''N''"]) simp_all
  moreover have "\<not> sublist ''Number of claims exceeds maximum allowed (10)''
      ''Validation error: Invalid parameters''"
    by (rule not_sublist_char [of "CHR ''N''"]) simp_all
  moreover have "\<not> sublist ''Invalid effective date format''
      ''Validation error: Invalid parameters''"
    by (rule not_sublist_char [of "CHR ''f''"]) simp_all
  moreover have "\<not> sublist (''Coverage amount must be between '' @ euro @ ''5,000,000 and ''
      @ euro @ ''20,000,000'') ''Validation error: Invalid parameters''"
    by (rule not_sublist_char [of "CHR ''C''"]) simp_all
  ultimately show ?thesis
    using assms by blast
qed

lemma calculateQuote_invalid:
  assumes "\<not> valid (validateInput env p)"
  shows "\<exists>es. join '', '' es \<noteq> []
           \<and> errors (validateInput env p) = Some es
           \<and> calculateQuote env p = Inl (ValidationError ''Invalid parameters'' (Some es))
           \<and> (\<forall>e\<in>set es. \<not> sublist e ''Validation error: Invalid parameters'')"
proof -
  from invalid_errors [OF assms] obtain es
    where es: "es \<noteq> []" "errors (validateInput env p) = Some es"
      and s: "\<forall>e\<in>set es. e \<in> {''Invalid German postal code (must be 5 digits)'',
                ''Invalid tariff line (must be basic, comfort, or premium)'',
                ''Invalid deductible amount (must be 0, 150, 300, or 500)'',
                ''Number of claims cannot be negative'',
                ''Number of claims exceeds maximum allowed (10)'',
                ''Invalid effective date format'',
                ''Coverage amount must be between '' @ euro @ ''5,000,000 and '' @ euro
                   @ ''20,000,000''}"
    by blast
  have n: "\<forall>e\<in>set es. e \<noteq> []"
    using s by auto
  have j: "join '', '' es \<noteq> []"
    using es(1) n by (rule join_not_Nil)
  have t: "\<forall>e\<in>set es. \<not> sublist e ''Validation error: Invalid parameters''"
    using s rule_messages_not_in_error_field by blast
  have "calculateQuote env p = Inl (ValidationError ''Invalid parameters'' (Some es))"
    using assms es(2) by (simp add: calculateQuote_def Let_def)
  with j es(2) t show ?thesis
    by blast
qed



section \<open>The claims\<close>

text \<open>
  C4, at the input where the code departs from it: in a request whose other fields are
  valid, with the zipCode \<open>1234\<close> and a \<open>coverageAmount\<close> present with the value \<open>0\<close>, two
  rules are violated at once, and \<open>validateInput\<close> reports the postal-code message only.
  With the \<open>coverageAmount\<close> \<open>1\<close> in its place, both messages are reported, the postal-code
  one first.
\<close>

theorem validateInput_zero_coverage_unreported:
  assumes "valid (validateInput env p)"
  shows "validateInput env (p \<lparr> zipCode := ''1234'', coverageAmount := Some (Fin 0) \<rparr>)
           = \<lparr> valid = False,
               errors = Some [''Invalid German postal code (must be 5 digits)''] \<rparr>
       \<and> validateInput env (p \<lparr> zipCode := ''1234'', coverageAmount := Some (Fin 1) \<rparr>)
           = \<lparr> valid = False,
               errors = Some [''Invalid German postal code (must be 5 digits)'',
                  ''Coverage amount must be between '' @ euro @ ''5,000,000 and '' @ euro
                    @ ''20,000,000''] \<rparr>"
proof -
  note v = assms [unfolded valid_iff]
  from v have t: "(tariffLine p \<notin> {''basic'', ''comfort'', ''premium''}) = False"
    by blast
  from v have d: "(deductibleAmount p \<notin> {Fin 0, Fin 150, Fin 300, Fin 500}) = False"
    by blast
  from v have c: "js_lt (numberOfClaims p) (Fin 0) = False"
    "js_gt (numberOfClaims p) (Fin 10) = False"
    "isNaN (Date_getTime env (effectiveDate p)) = False"
    by blast+
  have s: "tariffLine (p \<lparr> zipCode := z, coverageAmount := a \<rparr>) = tariffLine p"
    "deductibleAmount (p \<lparr> zipCode := z, coverageAmount := a \<rparr>) = deductibleAmount p"
    "numberOfClaims (p \<lparr> zipCode := z, coverageAmount := a \<rparr>) = numberOfClaims p"
    "effectiveDate (p \<lparr> zipCode := z, coverageAmount := a \<rparr>) = effectiveDate p"
    "zipCode (p \<lparr> zipCode := z, coverageAmount := a \<rparr>) = z"
    "coverageAmount (p \<lparr> zipCode := z, coverageAmount := a \<rparr>) = a"
    for z a
    by simp_all
  show ?thesis
    unfolding validateInput_eq Let_def s t d c
    by (simp add: js_gt_def)
qed

theorem validateInput_zero_coverage_unreported_witness:
  "validateInput test_env (test_params \<lparr> zipCode := ''1234'', coverageAmount := Some (Fin 0) \<rparr>)
   = \<lparr> valid = False, errors = Some [''Invalid German postal code (must be 5 digits)''] \<rparr>"
  using validateInput_zero_coverage_unreported [OF test_params_valid] by simp

text \<open>
  C7: with every other field valid, \<open>numberOfClaims = 10\<close> is accepted and \<open>11\<close> rejected;
  \<open>coverageAmount = 5000000\<close> and \<open>20000000\<close> are accepted, \<open>4999999\<close> and \<open>20000001\<close>
  rejected.
\<close>

theorem validateInput_boundaries:
  assumes "valid (validateInput env p)"
  shows "valid (validateInput env (p \<lparr> numberOfClaims := Fin 10 \<rparr>))
       \<and> \<not> valid (validateInput env (p \<lparr> numberOfClaims := Fin 11 \<rparr>))
       \<and> valid (validateInput env (p \<lparr> coverageAmount := Some (Fin 5000000) \<rparr>))
       \<and> valid (validateInput env (p \<lparr> coverageAmount := Some (Fin 20000000) \<rparr>))
       \<and> \<not> valid (validateInput env (p \<lparr> coverageAmount := Some (Fin 4999999) \<rparr>))
       \<and> \<not> valid (validateInput env (p \<lparr> coverageAmount := Some (Fin 20000001) \<rparr>))"
  using assms by (simp add: valid_iff js_gt_def)

theorem validateInput_boundaries_witness:
  "valid (validateInput test_env test_params)
   \<and> valid (validateInput test_env (test_params \<lparr> numberOfClaims := Fin 10 \<rparr>))
   \<and> \<not> valid (validateInput test_env (test_params \<lparr> numberOfClaims := Fin 11 \<rparr>))
   \<and> valid (validateInput test_env (test_params \<lparr> coverageAmount := Some (Fin 5000000) \<rparr>))
   \<and> valid (validateInput test_env (test_params \<lparr> coverageAmount := Some (Fin 20000000) \<rparr>))
   \<and> \<not> valid (validateInput test_env (test_params \<lparr> coverageAmount := Some (Fin 4999999) \<rparr>))
   \<and> \<not> valid (validateInput test_env (test_params \<lparr> coverageAmount := Some (Fin 20000001) \<rparr>))"
  using validateInput_boundaries [OF test_params_valid] test_params_valid by simp

text \<open>
  C2, at the input where the code departs from it: a request whose \<open>coverageAmount\<close> is
  present with the value \<open>0\<close> gets no coverage-amount error, and is valid exactly when the
  same request without \<open>coverageAmount\<close> is.
\<close>

theorem validateInput_coverageAmount_zero:
  "''Coverage amount must be between '' @ euro @ ''5,000,000 and '' @ euro @ ''20,000,000''
      \<notin> set (case errors (validateInput env (p \<lparr> coverageAmount := Some (Fin 0) \<rparr>))
               of None \<Rightarrow> [] | Some es \<Rightarrow> es)
   \<and> valid (validateInput env (p \<lparr> coverageAmount := Some (Fin 0) \<rparr>))
       = valid (validateInput env (p \<lparr> coverageAmount := None \<rparr>))"
  by (simp only: coverage_error_iff valid_iff) simp

theorem validateInput_coverageAmount_zero_witness:
  "validateInput test_env (test_params \<lparr> coverageAmount := Some (Fin 0) \<rparr>)
   = \<lparr> valid = True, errors = None \<rparr>"
proof -
  have "test_params \<lparr> coverageAmount := None \<rparr> = test_params"
    by (simp add: test_params_def)
  then have "valid (validateInput test_env (test_params \<lparr> coverageAmount := Some (Fin 0) \<rparr>))"
    using validateInput_coverageAmount_zero [of test_env test_params] test_params_valid
    by simp
  then show ?thesis
    using validateInput_eq [of test_env "test_params \<lparr> coverageAmount := Some (Fin 0) \<rparr>"]
    by (simp add: Let_def split: if_splits)
qed

text \<open>
  C3: \<open>calculateQuote\<close> returns a quote when \<open>validateInput\<close> accepts the request, and
  otherwise fails, before any pricing, with a \<open>ValidationError\<close> whose message is
  \<open>Invalid parameters\<close> and whose details are the non-empty error list of \<open>validateInput\<close>;
  so it fails with a \<open>ValidationError\<close> exactly when \<open>validateInput\<close> rejects the
  request.
\<close>

theorem calculateQuote_validation:
  "(if valid (validateInput env p)
    then \<exists>q. calculateQuote env p = Inr q
    else \<exists>es. es \<noteq> [] \<and> errors (validateInput env p) = Some es
           \<and> calculateQuote env p = Inl (ValidationError ''Invalid parameters'' (Some es)))
   \<and> ((\<exists>m d. calculateQuote env p = Inl (ValidationError m d))
        = (\<not> valid (validateInput env p)))
   \<and> ((\<exists>q. calculateQuote env p = Inr q) = valid (validateInput env p))"
proof (cases "valid (validateInput env p)")
  case True
  then show ?thesis
    by (simp add: calculateQuote_def Let_def)
next
  case False
  from invalid_errors [OF False] obtain es
    where "es \<noteq> []" and "errors (validateInput env p) = Some es"
    by blast
  with False show ?thesis
    by (simp add: calculateQuote_def Let_def)
qed

theorem calculateQuote_validation_witness:
  "calculateQuote test_env (test_params \<lparr> zipCode := ''1234'', numberOfClaims := Fin 11 \<rparr>)
   = Inl (ValidationError ''Invalid parameters''
       (Some [''Invalid German postal code (must be 5 digits)'',
              ''Number of claims exceeds maximum allowed (10)'']))
   \<and> (\<exists>q. calculateQuote test_env test_params = Inr q)"
proof -
  have e: "validateInput test_env (test_params \<lparr> zipCode := ''1234'', numberOfClaims := Fin 11 \<rparr>)
      = \<lparr> valid = False,
          errors = Some [''Invalid German postal code (must be 5 digits)'',
                         ''Number of claims exceeds maximum allowed (10)''] \<rparr>"
    by (simp add: validateInput_eq test_env_def test_params_def js_gt_def isNaN_def)
  show ?thesis
    using calculateQuote_validation
        [of test_env "test_params \<lparr> zipCode := ''1234'', numberOfClaims := Fin 11 \<rparr>"]
      calculateQuote_validation [of test_env test_params] test_params_valid
    by (simp add: e)
qed

text \<open>
  C6: for a valid request, the extensions of the quote contain \<open>drones_coverage\<close> exactly
  when \<open>dronesCoverage\<close> is set, \<open>family_coverage\<close> exactly when \<open>familyCoverage\<close> is set,
  and nothing else; when both are present the list is drones first, family second.
\<close>

theorem calculateQuote_extensions:
  assumes "valid (validateInput env p)"
  shows "\<exists>q. calculateQuote env p = Inr q
           \<and> (''drones_coverage'' \<in> set (extensions q)) = dronesCoverage p
           \<and> (''family_coverage'' \<in> set (extensions q)) = familyCoverage p
           \<and> set (extensions q) \<subseteq> {''drones_coverage'', ''family_coverage''}
           \<and> distinct (extensions q)
           \<and> (if dronesCoverage p \<and> familyCoverage p
               then extensions q = [''drones_coverage'', ''family_coverage'']
               else length (extensions q) \<le> 1)"
  using assms by (simp add: calculateQuote_def Let_def push_def)

theorem calculateQuote_extensions_witness:
  "\<exists>q. calculateQuote test_env (test_params \<lparr> dronesCoverage := True \<rparr>) = Inr q
       \<and> extensions q = [''drones_coverage'', ''family_coverage'']"
proof -
  have v: "valid (validateInput test_env (test_params \<lparr> dronesCoverage := True \<rparr>))"
    using test_params_valid by (simp add: valid_iff)
  have f: "dronesCoverage (test_params \<lparr> dronesCoverage := True \<rparr>)
      \<and> familyCoverage (test_params \<lparr> dronesCoverage := True \<rparr>)"
    by (simp add: test_params_def)
  show ?thesis
    using calculateQuote_extensions [OF v] f by auto
qed

text \<open>
  C9: for every request that passes validation, \<open>calculateQuote\<close> returns a quote whose
  monthly and annual premiums are numbers greater than or equal to \<open>0\<close> (in particular
  neither is NaN).
\<close>

theorem calculateQuote_premium_nonnegative:
  assumes "valid (validateInput env p)"
  shows "\<exists>q. calculateQuote env p = Inr q
           \<and> js_ge (monthlyPremium q) (Fin 0)
           \<and> js_ge (annualPremium q) (Fin 0)"
proof -
  have r: "in_range 12 (rawMonthlyPremium p)"
    using assms by (rule rawMonthlyPremium_in_range)
  have c: "in_range 7 (Fin 100)" "in_range 4 (Fin 12)"
    by simp_all
  have "in_range (12 + 7) (js_mul (rawMonthlyPremium p) (Fin 100))"
    using r c(1) by (rule in_range_mul) simp
  then have "in_range (12 + 7) (Math_round (js_mul (rawMonthlyPremium p) (Fin 100)))"
    by (rule in_range_round)
  then have "in_range (12 + 7)
      (js_div (Math_round (js_mul (rawMonthlyPremium p) (Fin 100))) (Fin 100))"
    by (rule in_range_div_100) simp
  then have m: "js_ge (js_div (Math_round (js_mul (rawMonthlyPremium p) (Fin 100))) (Fin 100))
      (Fin 0)"
    by (rule in_range_ge_0)
  have a: "in_range (12 + 4) (js_mul (rawMonthlyPremium p) (Fin 12))"
    using r c(2) by (rule in_range_mul) simp
  have "in_range (12 + 4 + 7) (js_mul (js_mul (rawMonthlyPremium p) (Fin 12)) (Fin 100))"
    using a c(1) by (rule in_range_mul) simp
  then have "in_range (12 + 4 + 7)
      (Math_round (js_mul (js_mul (rawMonthlyPremium p) (Fin 12)) (Fin 100)))"
    by (rule in_range_round)
  then have "in_range (12 + 4 + 7)
      (js_div (Math_round (js_mul (js_mul (rawMonthlyPremium p) (Fin 12)) (Fin 100))) (Fin 100))"
    by (rule in_range_div_100) simp
  then have y: "js_ge
      (js_div (Math_round (js_mul (js_mul (rawMonthlyPremium p) (Fin 12)) (Fin 100))) (Fin 100))
      (Fin 0)"
    by (rule in_range_ge_0)
  show ?thesis
    using assms m y by (simp add: calculateQuote_def Let_def)
qed

theorem calculateQuote_premium_nonnegative_witness:
  "valid (validateInput test_env test_params)
   \<and> (\<exists>q. calculateQuote test_env test_params = Inr q
          \<and> js_ge (monthlyPremium q) (Fin 0)
          \<and> js_ge (annualPremium q) (Fin 0))"
  using calculateQuote_premium_nonnegative [OF test_params_valid] test_params_valid
  by simp

text \<open>
  C1, as the code computes it: for comfort, family coverage, deductible 150, one claim and
  every other option off, with a valid zipCode and effectiveDate, \<open>calculateQuote\<close> returns
  the monthly premium \<open>15.51\<close> and the annual premium \<open>186.11\<close>, the rounding of twelve
  times the unrounded monthly premium; that is not \<open>186.12\<close>, which is twelve times the
  rounded monthly premium.
\<close>

theorem calculateQuote_scenario3:
  assumes "valid (validateInput env p)"
    and "tariffLine p = ''comfort''" "familyCoverage p" "\<not> dronesCoverage p"
    and "deductibleAmount p = Fin 150" "numberOfClaims p = Fin 1" "\<not> cancelledByInsurer p"
  shows "\<exists>q. calculateQuote env p = Inr q
           \<and> monthlyPremium q = fl (1551 / 100)
           \<and> annualPremium q = fl (18611 / 100)
           \<and> annualPremium q \<noteq> fl (18612 / 100)
           \<and> js_mul (monthlyPremium q) (Fin 12) = fl (18612 / 100)"
  using assms
  by (simp add: calculateQuote_def Let_def rawMonthlyPremium_def basePremiums_def
      deductibleDiscounts_def js_gt_def scenario3_values)

theorem calculateQuote_scenario3_witness:
  "\<exists>q. calculateQuote test_env (test_params \<lparr> numberOfClaims := Fin 1 \<rparr>) = Inr q
       \<and> monthlyPremium q = fl (1551 / 100)
       \<and> annualPremium q = fl (18611 / 100)
       \<and> annualPremium q \<noteq> fl (18612 / 100)"
proof -
  have v: "valid (validateInput test_env (test_params \<lparr> numberOfClaims := Fin 1 \<rparr>))"
    using test_params_valid by (simp add: valid_iff js_gt_def)
  have "\<exists>q. calculateQuote test_env (test_params \<lparr> numberOfClaims := Fin 1 \<rparr>) = Inr q
       \<and> monthlyPremium q = fl (1551 / 100)
       \<and> annualPremium q = fl (18611 / 100)
       \<and> annualPremium q \<noteq> fl (18612 / 100)
       \<and> js_mul (monthlyPremium q) (Fin 12) = fl (18612 / 100)"
    by (rule calculateQuote_scenario3 [OF v]) (simp_all add: test_params_def)
  then show ?thesis
    by blast
qed

text \<open>
  C8: \<open>formatQuoteSummary\<close> joins its segments with \<open>''. ''\<close> and appends \<open>''.''\<close>; the
  segments are the premium line, the coverage line, the deductible segment
  (\<open>Deductible: \<close> followed by the euro sign and the deductible when the deductible is
  greater than \<open>0\<close>, \<open>No deductible\<close> otherwise), the two optional segments, the territory
  line and the validity line.
\<close>

theorem formatQuoteSummary_segments:
  assumes "coverageSum q = Some cs"
  shows "formatQuoteSummary env q = Inr (join ''. ''
     ([''Liability Insurance Quote: '' @ euro @ Number_toString env (monthlyPremium q)
         @ ''/month ('' @ euro @ Number_toString env (annualPremium q) @ ''/year)'',
       ''Coverage: '' @ euro @ Number_toLocaleString env cs @ '' '' @ tariffLine' q,
       (if js_gt (deductible q) (Fin 0)
        then ''Deductible: '' @ euro @ Number_toString env (deductible q)
        else ''No deductible'')]
      @ (if familyCoverage' q then [''Includes family coverage''] else [])
      @ (if ''drones_coverage'' \<in> set (extensions q) then [''Includes drone liability'']
         else [])
      @ [''Territory: '' @ territory q,
         ''Valid until: '' @ Date_toLocaleDateString env (validUntil q)])
     @ ''.'')"
  using assms by (simp add: formatQuoteSummary_def Let_def push_def Array_includes_def)

theorem formatQuoteSummary_segments_witness:
  "formatQuoteSummary test_env test_quote = Inr
     (''Liability Insurance Quote: '' @ euro @ ''13.49/month ('' @ euro
      @ ''161.84/year). Coverage: '' @ euro @ ''10,000,000 comfort. Deductible: '' @ euro
      @ ''150. Includes family coverage. Territory: Worldwide. Valid until: 1/18/2025.'')"
  using formatQuoteSummary_segments [of test_quote "Fin 10000000" test_env]
  by (simp add: test_quote_def test_env_def js_gt_def readme_values)




text \<open>
  C10: whenever validation fails, the \<open>ValidationError\<close> carries the message
  \<open>Invalid parameters\<close>, so the error field of the response is exactly
  \<open>Validation error: Invalid parameters\<close>; the rule messages are in the summary, and none
  of them occurs in the error field.
\<close>

theorem handler_validation_error_field:
  assumes "\<not> valid (validateInput env p)"
  shows "\<exists>es. errors (validateInput env p) = Some es
           \<and> calculateQuote env p = Inl (ValidationError ''Invalid parameters'' (Some es))
           \<and> error (handler env p) = Some ''Validation error: Invalid parameters''
           \<and> summary (handler env p) = ''Failed to calculate quote: '' @ join '', '' es
           \<and> (\<forall>e\<in>set es. \<not> sublist e ''Validation error: Invalid parameters'')"
proof -
  from calculateQuote_invalid [OF assms] obtain es
    where j: "join '', '' es \<noteq> []"
      and e: "errors (validateInput env p) = Some es"
      and c: "calculateQuote env p = Inl (ValidationError ''Invalid parameters'' (Some es))"
      and s: "\<forall>e\<in>set es. \<not> sublist e ''Validation error: Invalid parameters''"
    by blast
  have "error (handler env p) = Some ''Validation error: Invalid parameters''"
    using c by (simp add: handler_def handler_of_def)
  moreover have "summary (handler env p) = ''Failed to calculate quote: '' @ join '', '' es"
    using c j by (simp add: handler_def handler_of_def)
  ultimately show ?thesis
    using e c s by blast
qed

theorem handler_validation_error_field_witness:
  "\<not> valid (validateInput test_env (test_params \<lparr> effectiveDate := ''tomorrow'' \<rparr>))
   \<and> error (handler test_env (test_params \<lparr> effectiveDate := ''tomorrow'' \<rparr>))
       = Some ''Validation error: Invalid parameters''
   \<and> summary (handler test_env (test_params \<lparr> effectiveDate := ''tomorrow'' \<rparr>))
       = ''Failed to calculate quote: Invalid effective date format''"
proof -
  have v: "validateInput test_env (test_params \<lparr> effectiveDate := ''tomorrow'' \<rparr>)
      = \<lparr> valid = False, errors = Some [''Invalid effective date format''] \<rparr>"
    by (simp add: validateInput_eq test_env_def test_params_def js_gt_def isNaN_def
        is_digit_def)
  then have n: "\<not> valid (validateInput test_env (test_params \<lparr> effectiveDate := ''tomorrow'' \<rparr>))"
    by simp
  show ?thesis
    using handler_validation_error_field [OF n] n by (auto simp: v)
qed

end
